theory Spec2Isabelle
  imports Complex_Main "HOL-Library.AList"
begin

section \<open>Time\<close>

text \<open>
  A naive \<^verbatim>\<open>datetime\<close> is modelled by its number of microseconds since a fixed midnight,
  a \<^verbatim>\<open>timedelta\<close> by a number of microseconds. \<^verbatim>\<open>total_seconds()\<close> returns a float;
  its comparisons with the integer settings are modelled exactly, on microseconds.
\<close>

type_synonym datetime = int
type_synonym timedelta = int

definition timedelta_seconds :: "int \<Rightarrow> timedelta" where
  "timedelta_seconds n = n * 1000000"

definition timedelta_hours :: "int \<Rightarrow> timedelta" where
  "timedelta_hours n = n * 3600000000"

text \<open>\<^verbatim>\<open>datetime.time()\<close>: the time of day, in microseconds since midnight.\<close>

definition time_of_day :: "datetime \<Rightarrow> int" where
  "time_of_day t = t mod 86400000000"

text \<open>\<^verbatim>\<open>time(h, m)\<close> of the configuration, in microseconds since midnight.\<close>

definition time_hm :: "int \<Rightarrow> int \<Rightarrow> int" where
  "time_hm h m = (h * 3600 + m * 60) * 1000000"

section \<open>Configuration\<close>

text \<open>
  The class \<^verbatim>\<open>Config\<close> of \<^verbatim>\<open>advanced_config.py\<close>, or the fallback class of
  \<^verbatim>\<open>facial_recognition_advanced.py\<close>, which lacks most attributes: an attribute the
  code probes with \<^verbatim>\<open>hasattr\<close> or reads with \<^verbatim>\<open>getattr(_, _, default)\<close> is an option,
  \<open>None\<close> when the attribute is missing (for the work hours and the webhook also when
  its value is \<^verbatim>\<open>None\<close>).
\<close>

type_synonym color = "nat \<times> nat \<times> nat"

record config =
  FACE_RECOGNITION_TOLERANCE :: rat
  RECOGNITION_COOLDOWN :: int
  WORK_START_TIME :: "int option"
  WORK_END_TIME :: "int option"
  ALLOW_AFTER_HOURS :: "bool option"
  MAX_FAILED_ATTEMPTS :: "int option"
  LOCKOUT_TIME :: "int option"
  CACHE_ENCODINGS :: "bool option"
  MAX_CACHE_SIZE :: "int option"
  NOTIFY_ON_FIRST_ENTRY :: "bool option"
  WEBHOOK_URL :: "string option"
  COLOR_RECOGNIZED :: color
  COLOR_UNKNOWN :: color
  COLOR_COOLDOWN :: "color option"

text \<open>The values of \<^verbatim>\<open>advanced_config.Config\<close> with an empty environment.\<close>

definition default_config :: config where
  "default_config = \<lparr>
     FACE_RECOGNITION_TOLERANCE = 3 / 5,
     RECOGNITION_COOLDOWN = 10,
     WORK_START_TIME = Some (time_hm 7 0),
     WORK_END_TIME = Some (time_hm 19 0),
     ALLOW_AFTER_HOURS = Some True,
     MAX_FAILED_ATTEMPTS = Some 10,
     LOCKOUT_TIME = Some 300,
     CACHE_ENCODINGS = Some True,
     MAX_CACHE_SIZE = Some 1000,
     NOTIFY_ON_FIRST_ENTRY = Some True,
     WEBHOOK_URL = None,
     COLOR_RECOGNIZED = (0, 255, 0),
     COLOR_UNKNOWN = (0, 0, 255),
     COLOR_COOLDOWN = Some (0, 255, 255) \<rparr>"

section \<open>State of \<^verbatim>\<open>AdvancedFacialRecognitionTimeCard\<close>\<close>

text \<open>
  The three ledgers are dictionaries keyed by employee id. The encoding cache is a
  dictionary from the hash of an encoding to \<^verbatim>\<open>(name, employee_id)\<close>, or \<^verbatim>\<open>None\<close>; it is
  an association list in insertion order, so that \<^verbatim>\<open>len\<close> and the truth value of the
  dictionary (empty is false) compute.
\<close>

record 'e state =
  known_faces :: "'e list"
  known_names :: "string list"
  known_ids :: "string list"
  last_recognition :: "string \<rightharpoonup> datetime"
  failed_attempts :: "string \<rightharpoonup> datetime list"
  locked_until :: "string \<rightharpoonup> datetime"
  encoding_cache :: "(int \<times> string \<times> string) list option"

text \<open>\<^verbatim>\<open>__init__\<close>, with the gallery that \<^verbatim>\<open>load_known_faces\<close> read.\<close>

definition init_state :: "config \<Rightarrow> 'e list \<Rightarrow> string list \<Rightarrow> string list \<Rightarrow> 'e state" where
  "init_state cfg faces names ids = \<lparr>
     known_faces = faces, known_names = names, known_ids = ids,
     last_recognition = Map.empty, failed_attempts = Map.empty, locked_until = Map.empty,
     encoding_cache = (if CACHE_ENCODINGS cfg = Some True then Some [] else None) \<rparr>"

section \<open>Work hours, lockout, cooldown\<close>

definition is_work_hours :: "config \<Rightarrow> datetime \<Rightarrow> bool" where
  "is_work_hours cfg now =
     (case WORK_START_TIME cfg of
        None \<Rightarrow> True
      | Some start \<Rightarrow>
          (case WORK_END_TIME cfg of
             None \<Rightarrow> True
           | Some fin \<Rightarrow> start \<le> time_of_day now \<and> time_of_day now \<le> fin))"

text \<open>
  \<^verbatim>\<open>is_employee_locked\<close> reads the clock (\<open>now\<close>) only when the id has a lockout entry;
  an expired entry is deleted together with the id's failure history.
\<close>

definition is_employee_locked :: "'e state \<Rightarrow> string \<Rightarrow> datetime \<Rightarrow> bool \<times> 'e state" where
  "is_employee_locked s employee_id now =
     (case locked_until s employee_id of
        None \<Rightarrow> (False, s)
      | Some until \<Rightarrow>
          if now > until
          then (False, s\<lparr> locked_until := (locked_until s)(employee_id := None),
                          failed_attempts := (failed_attempts s)(employee_id := None) \<rparr>)
          else (True, s))"

text \<open>
  \<^verbatim>\<open>can_register_again\<close> reads the clock twice: \<open>now_lock\<close> inside
  \<^verbatim>\<open>is_employee_locked\<close>, \<open>now\<close> for the cooldown.
\<close>

definition can_register_again ::
  "config \<Rightarrow> 'e state \<Rightarrow> string \<Rightarrow> datetime \<Rightarrow> datetime \<Rightarrow> bool \<times> 'e state" where
  "can_register_again cfg s employee_id now_lock now =
     (case is_employee_locked s employee_id now_lock of
        (True, s') \<Rightarrow> (False, s')
      | (False, s') \<Rightarrow>
          (case last_recognition s' employee_id of
             Some t \<Rightarrow> (now - t \<ge> timedelta_seconds (RECOGNITION_COOLDOWN cfg), s')
           | None \<Rightarrow> (True, s')))"

text \<open>
  The assignment \<^verbatim>\<open>self.last_recognition[employee_id] = current_time\<close> of
  \<^verbatim>\<open>process_recognition\<close> after an accepted submission.
\<close>

definition mark_accepted :: "'e state \<Rightarrow> string \<Rightarrow> datetime \<Rightarrow> 'e state" where
  "mark_accepted s employee_id current_time =
     s\<lparr> last_recognition := (last_recognition s)(employee_id \<mapsto> current_time) \<rparr>"

text \<open>\<^verbatim>\<open>self.failed_attempts.get(scope, [])\<close>, as the statistics of \<^verbatim>\<open>main\<close> read it.\<close>

definition failure_window :: "'e state \<Rightarrow> string \<Rightarrow> datetime list" where
  "failure_window s scope = (case failed_attempts s scope of None \<Rightarrow> [] | Some w \<Rightarrow> w)"

definition failed_attempts_stat :: "'e state \<Rightarrow> nat" where
  "failed_attempts_stat s = length (failure_window s ''unknown'')"

text \<open>
  \<^verbatim>\<open>register_failed_attempt\<close>, called with no frame (as \<^verbatim>\<open>process_recognition\<close> does, so
  no picture is saved). It never reads \<^verbatim>\<open>locked_until\<close>.
\<close>

definition register_failed_attempt :: "config \<Rightarrow> 'e state \<Rightarrow> datetime \<Rightarrow> 'e state" where
  "register_failed_attempt cfg s current_time =
     (case MAX_FAILED_ATTEMPTS cfg of
        None \<Rightarrow> s
      | Some max_failed \<Rightarrow>
          let appended = failure_window s ''unknown'' @ [current_time];
              one_hour_ago = current_time - timedelta_hours 1;
              kept = filter (\<lambda>attempt. attempt > one_hour_ago) appended;
              s1 = s\<lparr> failed_attempts := (failed_attempts s)(''unknown'' \<mapsto> kept) \<rparr>
          in if int (length kept) \<ge> max_failed
             then (case LOCKOUT_TIME cfg of
                     Some lockout \<Rightarrow>
                       s1\<lparr> locked_until :=
                             (locked_until s1)(''unknown'' \<mapsto> current_time + timedelta_seconds lockout) \<rparr>
                   | None \<Rightarrow> s1)
             else s1)"

text \<open>A run of failures, one call of \<^verbatim>\<open>register_failed_attempt\<close> per clock reading.\<close>

fun register_failures :: "config \<Rightarrow> 'e state \<Rightarrow> datetime list \<Rightarrow> 'e state" where
  "register_failures cfg s [] = s"
| "register_failures cfg s (t # ts) = register_failures cfg (register_failed_attempt cfg s t) ts"

text \<open>Every timestamp of a window is less than one hour older than \<open>now\<close>.\<close>

definition within_last_hour :: "datetime \<Rightarrow> datetime list \<Rightarrow> bool" where
  "within_last_hour now w = list_all (\<lambda>attempt. attempt > now - timedelta_hours 1) w"

section \<open>Submission to the backend\<close>

text \<open>The exceptions that leave the functions modelled here.\<close>

datatype py_error = IndexError | ValueError | AttributeError

text \<open>
  The body of an answer of the store, as far as the code reads it. \<^verbatim>\<open>response.json()\<close>
  raises on a body that is not JSON; with requests 2.27 or later that exception is a
  \<^verbatim>\<open>RequestException\<close>. A JSON value that is not an object has no \<^verbatim>\<open>get\<close>:
  \<^verbatim>\<open>result.get('message', 'OK')\<close> raises \<^verbatim>\<open>AttributeError\<close>. Of a JSON object the code
  reads the message and \<^verbatim>\<open>result.get('data', {}).get('entry_type')\<close>: the key
  \<^verbatim>\<open>data\<close> is missing, or holds an object with its entry type, or holds a value that
  is not an object (such as \<^verbatim>\<open>null\<close>), on which \<^verbatim>\<open>get\<close> raises \<^verbatim>\<open>AttributeError\<close>.
\<close>

datatype json_data = DataMissing | DataNotDict | DataDict "string option"

record store_result =
  message :: "string option"
  data :: json_data

datatype json_body = NotJson | NotDict | JsonDict store_result

text \<open>An attempt either gets an HTTP answer or raises \<^verbatim>\<open>requests.RequestException\<close>.\<close>

datatype response = HttpResponse int json_body | RequestException

text \<open>
  The calls that leave the process, in order: the two matcher functions, the POST to
  the store (employee id, name, timestamp), \<^verbatim>\<open>time.sleep\<close> (seconds) and the webhook
  POST. Logging is not modelled.
\<close>

datatype event =
    EvCompareFaces
  | EvFaceDistance
  | EvPost string string datetime
  | EvSleep nat
  | EvNotify string string datetime

text \<open>
  The body of \<^verbatim>\<open>for attempt in range(max_retries)\<close>: \<open>backend attempt\<close> is what the
  store does at that attempt. Only the \<^verbatim>\<open>except\<close> branch sleeps; it is entered when
  the POST raises and when the body of a 200 answer is not JSON. The
  \<^verbatim>\<open>AttributeError\<close> of a 200 answer whose JSON is not an object is not caught and
  leaves the function.
\<close>

fun send_attempts ::
  "(nat \<Rightarrow> response) \<Rightarrow> string \<Rightarrow> string \<Rightarrow> datetime \<Rightarrow> nat \<Rightarrow> nat list
     \<Rightarrow> (py_error + bool \<times> store_result option) \<times> event list" where
  "send_attempts backend employee_id employee_name timestamp max_retries [] =
     (Inr (False, None), [])"
| "send_attempts backend employee_id employee_name timestamp max_retries (attempt # rest) =
     (case backend attempt of
        HttpResponse status_code body \<Rightarrow>
          if status_code = 200
          then (case body of
                  JsonDict result \<Rightarrow>
                    (Inr (True, Some result), [EvPost employee_id employee_name timestamp])
                | NotDict \<Rightarrow>
                    (Inl AttributeError, [EvPost employee_id employee_name timestamp])
                | NotJson \<Rightarrow>
                    (case send_attempts backend employee_id employee_name timestamp max_retries rest of
                       (r, evs) \<Rightarrow>
                         (r, EvPost employee_id employee_name timestamp
                               # (if attempt < max_retries - 1 then [EvSleep 1] else []) @ evs)))
          else (case send_attempts backend employee_id employee_name timestamp max_retries rest of
                  (r, evs) \<Rightarrow> (r, EvPost employee_id employee_name timestamp # evs))
      | RequestException \<Rightarrow>
          (case send_attempts backend employee_id employee_name timestamp max_retries rest of
             (r, evs) \<Rightarrow>
               (r, EvPost employee_id employee_name timestamp
                     # (if attempt < max_retries - 1 then [EvSleep 1] else []) @ evs)))"

definition send_timecard_to_backend ::
  "(nat \<Rightarrow> response) \<Rightarrow> string \<Rightarrow> string \<Rightarrow> datetime
     \<Rightarrow> (py_error + bool \<times> store_result option) \<times> event list" where
  "send_timecard_to_backend backend employee_id employee_name timestamp =
     (let max_retries = 3
      in send_attempts backend employee_id employee_name timestamp max_retries [0..<max_retries])"

text \<open>What a trace of events cost: calls of the store, and seconds slept.\<close>

fun store_calls :: "event list \<Rightarrow> nat" where
  "store_calls [] = 0"
| "store_calls (EvPost i n t # evs) = Suc (store_calls evs)"
| "store_calls (ev # evs) = store_calls evs"

fun injected_delay :: "event list \<Rightarrow> nat" where
  "injected_delay [] = 0"
| "injected_delay (EvSleep n # evs) = n + injected_delay evs"
| "injected_delay (ev # evs) = injected_delay evs"

text \<open>
  \<^verbatim>\<open>send_notification('first_entry', _)\<close>: nothing is sent without a webhook URL; an
  error of the webhook is caught and logged.
\<close>

definition send_notification :: "config \<Rightarrow> string \<Rightarrow> string \<Rightarrow> datetime \<Rightarrow> event list" where
  "send_notification cfg employee_id employee_name timestamp =
     (case WEBHOOK_URL cfg of
        None \<Rightarrow> []
      | Some url \<Rightarrow> if url = [] then [] else [EvNotify employee_id employee_name timestamp])"

text \<open>
  Lines 404 to 411. An empty object is false in \<^verbatim>\<open>if result and ...\<close>; it has no key
  \<^verbatim>\<open>data\<close>, so the answer is the same as for a missing key. The \<^verbatim>\<open>AttributeError\<close> of
  a \<^verbatim>\<open>data\<close> that is not an object is raised before anything is sent.
\<close>

definition notify_first_entry ::
  "config \<Rightarrow> store_result option \<Rightarrow> string \<Rightarrow> string \<Rightarrow> datetime
     \<Rightarrow> py_error + event list" where
  "notify_first_entry cfg result employee_id employee_name timestamp =
     (if NOTIFY_ON_FIRST_ENTRY cfg = Some True
      then (case result of
              None \<Rightarrow> Inr []
            | Some r \<Rightarrow>
                (case data r of
                   DataMissing \<Rightarrow> Inr []
                 | DataNotDict \<Rightarrow> Inl AttributeError
                 | DataDict entry_type \<Rightarrow>
                     if entry_type = Some ''entrada''
                     then Inr (send_notification cfg employee_id employee_name timestamp)
                     else Inr []))
      else Inr [])"

section \<open>The matcher\<close>

text \<open>
  \<^verbatim>\<open>face_recognition.compare_faces\<close>, \<^verbatim>\<open>face_recognition.face_distance\<close> and
  \<^verbatim>\<open>hash(face_encoding.tobytes())\<close> are external: they are parameters, over any type
  \<open>'e\<close> of encodings. Distances and the tolerance are floats, modelled as rationals.
\<close>

record 'e matcher =
  compare_faces :: "'e list \<Rightarrow> 'e \<Rightarrow> rat \<Rightarrow> bool list"
  face_distance :: "'e list \<Rightarrow> 'e \<Rightarrow> rat list"
  encoding_hash :: "'e \<Rightarrow> int"

text \<open>\<^verbatim>\<open>np.argmin\<close>: the first index of the minimum; it raises on an empty array.\<close>

fun argmin :: "rat list \<Rightarrow> nat option" where
  "argmin [] = None"
| "argmin (x # xs) =
     (case argmin xs of
        None \<Rightarrow> Some 0
      | Some i \<Rightarrow> if x \<le> xs ! i then Some 0 else Some (Suc i))"

section \<open>\<^verbatim>\<open>process_recognition\<close>\<close>

text \<open>
  The clock readings and the store of one face: \<^verbatim>\<open>datetime.now()\<close> in
  \<^verbatim>\<open>is_employee_locked\<close>, in \<^verbatim>\<open>can_register_again\<close>, in \<^verbatim>\<open>is_work_hours\<close> and in
  \<^verbatim>\<open>register_failed_attempt\<close>, and the answers of the store to the attempts.
\<close>

record face_env =
  now_locked :: datetime
  now_cooldown :: datetime
  now_work :: datetime
  now_failed :: datetime
  backend :: "nat \<Rightarrow> response"

type_synonym 'e outcome = "(py_error + string \<times> color) \<times> 'e state \<times> event list"

definition max_cache_size :: "config \<Rightarrow> int" where
  "max_cache_size cfg = (case MAX_CACHE_SIZE cfg of None \<Rightarrow> 1000 | Some n \<Rightarrow> n)"

definition allow_after_hours :: "config \<Rightarrow> bool" where
  "allow_after_hours cfg = (case ALLOW_AFTER_HOURS cfg of None \<Rightarrow> True | Some b \<Rightarrow> b)"

definition color_cooldown :: "config \<Rightarrow> color" where
  "color_cooldown cfg = (case COLOR_COOLDOWN cfg of None \<Rightarrow> (0, 255, 255) | Some c \<Rightarrow> c)"

text \<open>Decimal digits of \<^verbatim>\<open>str(int)\<close>, and \<^verbatim>\<open>int(float)\<close>, which truncates towards zero.\<close>

fun str_nat :: "nat \<Rightarrow> string" where
  "str_nat n =
     (if n < 10 then [''0123456789'' ! n]
      else str_nat (n div 10) @ [''0123456789'' ! (n mod 10)])"

declare str_nat.simps [simp del]

definition str_int :: "int \<Rightarrow> string" where
  "str_int i = (if i < 0 then ''-'' @ str_nat (nat (- i)) else str_nat (nat i))"

definition int_of_seconds :: "timedelta \<Rightarrow> int" where
  "int_of_seconds d = (if d \<ge> 0 then d div 1000000 else - ((- d) div 1000000))"

text \<open>The two suffixes of the displayed name; \<open>CHR 0xE1\<close> is the a-acute.\<close>

definition out_of_hours_suffix :: string where
  "out_of_hours_suffix = '' (Fora do hor'' @ [CHR 0xE1] @ ''rio)''"

definition cooldown_suffix :: "config \<Rightarrow> 'e state \<Rightarrow> string \<Rightarrow> datetime \<Rightarrow> string" where
  "cooldown_suffix cfg s employee_id current_time =
     (let last = (case last_recognition s employee_id of None \<Rightarrow> current_time | Some t \<Rightarrow> t);
          remaining_time = timedelta_seconds (RECOGNITION_COOLDOWN cfg) - (current_time - last)
      in '' (Aguarde '' @ str_int (int_of_seconds remaining_time) @ ''s)'')"

text \<open>
  Lines 356 to 362: the cache answers only while it is non-empty and holds fewer than
  \<^verbatim>\<open>MAX_CACHE_SIZE\<close> entries.
\<close>

definition cache_lookup :: "config \<Rightarrow> 'e matcher \<Rightarrow> 'e state \<Rightarrow> 'e \<Rightarrow> (string \<times> string) option" where
  "cache_lookup cfg m s face_encoding =
     (case encoding_cache s of
        None \<Rightarrow> None
      | Some cache \<Rightarrow>
          if cache \<noteq> [] \<and> int (length cache) < max_cache_size cfg
          then map_of cache (encoding_hash m face_encoding)
          else None)"

text \<open>Lines 383 to 386: the entry is written whenever the cache is non-empty.\<close>

definition cache_insert :: "'e matcher \<Rightarrow> 'e state \<Rightarrow> 'e \<Rightarrow> string \<Rightarrow> string \<Rightarrow> 'e state" where
  "cache_insert m s face_encoding name employee_id =
     (case encoding_cache s of
        None \<Rightarrow> s
      | Some cache \<Rightarrow>
          if cache \<noteq> []
          then s\<lparr> encoding_cache :=
                   Some (AList.update (encoding_hash m face_encoding) (name, employee_id) cache) \<rparr>
          else s)"

text \<open>
  Lines 365 to 381: the comparison with the gallery. The result is the name and id of
  the accepted candidate, \<open>None\<close> when no candidate is accepted, or the exception of an
  index out of range.
\<close>

definition best_match ::
  "config \<Rightarrow> 'e matcher \<Rightarrow> 'e state \<Rightarrow> 'e \<Rightarrow> py_error + (string \<times> string) option" where
  "best_match cfg m s face_encoding =
     (let matches = compare_faces m (known_faces s) face_encoding (FACE_RECOGNITION_TOLERANCE cfg);
          face_distances = face_distance m (known_faces s) face_encoding
      in if length face_distances > 0
         then (case argmin face_distances of
                 None \<Rightarrow> Inl ValueError
               | Some best_match_index \<Rightarrow>
                   if best_match_index \<ge> length matches then Inl IndexError
                   else if matches ! best_match_index
                           \<and> face_distances ! best_match_index < FACE_RECOGNITION_TOLERANCE cfg
                   then (if best_match_index \<ge> length (known_names s) then Inl IndexError
                         else if best_match_index \<ge> length (known_ids s) then Inl IndexError
                         else Inr (Some (known_names s ! best_match_index,
                                         known_ids s ! best_match_index)))
                   else Inr None)
         else Inr None)"

text \<open>
  Lines 420 to 423, the end of the loop body: the failure is recorded when the displayed
  name is exactly \<^verbatim>\<open>"Desconhecido"\<close>.
\<close>

definition finish ::
  "config \<Rightarrow> face_env \<Rightarrow> string \<Rightarrow> color \<Rightarrow> 'e state \<Rightarrow> event list \<Rightarrow> 'e outcome" where
  "finish cfg env name color s evs =
     (Inr (name, color),
      (if name = ''Desconhecido'' then register_failed_attempt cfg s (now_failed env) else s),
      evs)"

text \<open>
  Lines 388 to 418, for a candidate accepted by the comparison: first
  \<^verbatim>\<open>can_register_again\<close>, inside it the work hours, then the submission. An
  exception of the submission or of the notification leaves the loop at once, after
  the side effects made so far.
\<close>

definition register_match ::
  "config \<Rightarrow> datetime \<Rightarrow> 'e state \<Rightarrow> face_env \<Rightarrow> string \<Rightarrow> string \<Rightarrow> event list \<Rightarrow> 'e outcome" where
  "register_match cfg current_time s env name employee_id evs =
     (case can_register_again cfg s employee_id (now_locked env) (now_cooldown env) of
        (True, s') \<Rightarrow>
          if \<not> is_work_hours cfg (now_work env) \<and> \<not> allow_after_hours cfg
          then finish cfg env (name @ out_of_hours_suffix) (0, 255, 255) s' evs
          else (case send_timecard_to_backend (backend env) employee_id name current_time of
                  (Inl err, sent) \<Rightarrow> (Inl err, s', evs @ sent)
                | (Inr (success, result), sent) \<Rightarrow>
                    if success
                    then (case notify_first_entry cfg result employee_id name current_time of
                            Inl err \<Rightarrow>
                              (Inl err, mark_accepted s' employee_id current_time, evs @ sent)
                          | Inr notified \<Rightarrow>
                              finish cfg env name (COLOR_RECOGNIZED cfg)
                                (mark_accepted s' employee_id current_time)
                                (evs @ sent @ notified))
                    else finish cfg env name (COLOR_RECOGNIZED cfg) s' (evs @ sent))
      | (False, s') \<Rightarrow>
          finish cfg env (name @ cooldown_suffix cfg s' employee_id current_time)
            (color_cooldown cfg) s' evs)"

definition match_gallery ::
  "config \<Rightarrow> 'e matcher \<Rightarrow> datetime \<Rightarrow> 'e state \<Rightarrow> face_env \<Rightarrow> 'e \<Rightarrow> 'e outcome" where
  "match_gallery cfg m current_time s env face_encoding =
     (let evs = [EvCompareFaces, EvFaceDistance]
      in case best_match cfg m s face_encoding of
           Inl err \<Rightarrow> (Inl err, s, evs)
         | Inr None \<Rightarrow> finish cfg env ''Desconhecido'' (COLOR_UNKNOWN cfg) s evs
         | Inr (Some (name, employee_id)) \<Rightarrow>
             register_match cfg current_time (cache_insert m s face_encoding name employee_id)
               env name employee_id evs)"

text \<open>The body of the loop over \<^verbatim>\<open>face_encodings\<close>; a cache hit skips the rest of it.\<close>

definition process_face ::
  "config \<Rightarrow> 'e matcher \<Rightarrow> datetime \<Rightarrow> 'e state \<Rightarrow> face_env \<Rightarrow> 'e \<Rightarrow> 'e outcome" where
  "process_face cfg m current_time s env face_encoding =
     (if length (known_faces s) > 0
      then (case cache_lookup cfg m s face_encoding of
              Some (name, employee_id) \<Rightarrow> (Inr (name, COLOR_RECOGNIZED cfg), s, [])
            | None \<Rightarrow> match_gallery cfg m current_time s env face_encoding)
      else finish cfg env ''Desconhecido'' (COLOR_UNKNOWN cfg) s [])"

fun process_recognition ::
  "config \<Rightarrow> 'e matcher \<Rightarrow> datetime \<Rightarrow> 'e state \<Rightarrow> (face_env \<times> 'e) list
     \<Rightarrow> (py_error + (string \<times> color) list) \<times> 'e state \<times> event list" where
  "process_recognition cfg m current_time s [] = (Inr [], s, [])"
| "process_recognition cfg m current_time s ((env, face_encoding) # rest) =
     (case process_face cfg m current_time s env face_encoding of
        (Inl err, s', evs) \<Rightarrow> (Inl err, s', evs)
      | (Inr shown, s', evs) \<Rightarrow>
          (case process_recognition cfg m current_time s' rest of
             (Inl err, s'', evs') \<Rightarrow> (Inl err, s'', evs @ evs')
           | (Inr face_names, s'', evs') \<Rightarrow> (Inr (shown # face_names), s'', evs @ evs')))"

section \<open>The loop body of \<^verbatim>\<open>facial_recognition_timecard.py\<close>\<close>

text \<open>
  The first version of the program has its own state, a cooldown of 10 seconds, a
  tolerance of 0.6 and a single attempt against the store. Its loop calls both matcher
  functions for every face, whatever the gallery.
\<close>

record 'e basic_state =
  basic_known_faces :: "'e list"
  basic_known_names :: "string list"
  basic_known_ids :: "string list"
  basic_last_recognition :: "string \<rightharpoonup> datetime"

record basic_env =
  basic_now_cooldown :: datetime
  basic_now_timestamp :: datetime
  basic_now_accepted :: datetime
  basic_backend :: response

definition basic_can_register_again :: "'e basic_state \<Rightarrow> string \<Rightarrow> datetime \<Rightarrow> bool" where
  "basic_can_register_again s employee_id now =
     (case basic_last_recognition s employee_id of
        Some t \<Rightarrow> now - t \<ge> timedelta_seconds 10
      | None \<Rightarrow> True)"

text \<open>
  The first version returns the parsed body as it is and never calls \<^verbatim>\<open>get\<close> on it; a
  body that is not JSON ends in its \<^verbatim>\<open>except\<close> branch.
\<close>

definition basic_send_timecard_to_backend :: "response \<Rightarrow> bool \<times> json_body option" where
  "basic_send_timecard_to_backend answer =
     (case answer of
        HttpResponse status_code body \<Rightarrow>
          if status_code = 200 \<and> body \<noteq> NotJson then (True, Some body) else (False, None)
      | RequestException \<Rightarrow> (False, None))"

definition basic_recognize_face ::
  "'e matcher \<Rightarrow> 'e basic_state \<Rightarrow> basic_env \<Rightarrow> 'e
     \<Rightarrow> (py_error + string) \<times> 'e basic_state \<times> event list" where
  "basic_recognize_face m s env face_encoding =
     (let matches = compare_faces m (basic_known_faces s) face_encoding (3 / 5);
          face_distances = face_distance m (basic_known_faces s) face_encoding;
          evs = [EvCompareFaces, EvFaceDistance]
      in if length face_distances > 0
         then (case argmin face_distances of
                 None \<Rightarrow> (Inl ValueError, s, evs)
               | Some best_match_index \<Rightarrow>
                   if best_match_index \<ge> length matches then (Inl IndexError, s, evs)
                   else if matches ! best_match_index \<and> face_distances ! best_match_index < 3 / 5
                   then (if best_match_index \<ge> length (basic_known_names s)
                            \<or> best_match_index \<ge> length (basic_known_ids s)
                         then (Inl IndexError, s, evs)
                         else
                           let name = basic_known_names s ! best_match_index;
                               employee_id = basic_known_ids s ! best_match_index
                           in if employee_id \<noteq> []
                                 \<and> basic_can_register_again s employee_id (basic_now_cooldown env)
                              then (case basic_send_timecard_to_backend (basic_backend env) of
                                      (success, result) \<Rightarrow>
                                        (Inr name,
                                         (if success
                                          then s\<lparr> basic_last_recognition :=
                                                    (basic_last_recognition s)
                                                      (employee_id \<mapsto> basic_now_accepted env) \<rparr>
                                          else s),
                                         evs @ [EvPost employee_id name (basic_now_timestamp env)]))
                              else (Inr name, s, evs))
                   else (Inr ''Desconhecido'', s, evs))
         else (Inr ''Desconhecido'', s, evs))"

section \<open>A small installation\<close>

text \<open>
  Encodings are integers, the distance of two encodings is a tenth of their difference
  (capped at 1), and the hash of an encoding is the encoding: a matcher on which the
  definitions evaluate.
\<close>

definition int_matcher :: "int matcher" where
  "int_matcher = \<lparr>
     compare_faces = (\<lambda>known face tolerance. map (\<lambda>k. min 1 (of_int \<bar>k - face\<bar> / 10) \<le> tolerance) known),
     face_distance = (\<lambda>known face. map (\<lambda>k. min 1 (of_int \<bar>k - face\<bar> / 10)) known),
     encoding_hash = (\<lambda>face. face) \<rparr>"

text \<open>
  One employee, Ana, with encoding 5 and a given id, under the default configuration;
  the same after ten failures in the first ten seconds, which trip the lockout.
\<close>

definition one_employee :: "string \<Rightarrow> int state" where
  "one_employee employee_id = init_state default_config [5] [''Ana''] [employee_id]"

definition locked_state :: "string \<Rightarrow> int state" where
  "locked_state employee_id =
     register_failures default_config (one_employee employee_id)
       (map timedelta_seconds [0, 1, 2, 3, 4, 5, 6, 7, 8, 9])"

text \<open>
  Stores: one that accepts at once; one that answers 500 twice and then accepts; one
  that cannot be reached twice and then accepts; one that answers 200 with a JSON list.
\<close>

definition store_ok :: store_result where
  "store_ok = \<lparr> message = Some ''Ponto registrado'', data = DataDict (Some ''entrada'') \<rparr>"

definition store_error :: store_result where
  "store_error = \<lparr> message = Some ''Erro interno'', data = DataMissing \<rparr>"

definition always_ok :: "nat \<Rightarrow> response" where
  "always_ok attempt = HttpResponse 200 (JsonDict store_ok)"

definition http_500_twice :: "nat \<Rightarrow> response" where
  "http_500_twice attempt =
     (if attempt < 2 then HttpResponse 500 (JsonDict store_error)
      else HttpResponse 200 (JsonDict store_ok))"

definition unreachable_twice :: "nat \<Rightarrow> response" where
  "unreachable_twice attempt =
     (if attempt < 2 then RequestException else HttpResponse 200 (JsonDict store_ok))"

definition answers_a_list :: "nat \<Rightarrow> response" where
  "answers_a_list attempt = HttpResponse 200 NotDict"

text \<open>All clock readings of one face at the same instant.\<close>

definition env_at :: "datetime \<Rightarrow> (nat \<Rightarrow> response) \<Rightarrow> face_env" where
  "env_at now store = \<lparr> now_locked = now, now_cooldown = now, now_work = now, now_failed = now,
                         backend = store \<rparr>"

section \<open>Notions used by the statements\<close>

text \<open>
  An observation is resolved to a known identity by the comparison with the gallery:
  the gallery is not empty, the cache does not answer, and the best candidate is
  accepted.
\<close>

definition resolves_to ::
  "config \<Rightarrow> 'e matcher \<Rightarrow> 'e state \<Rightarrow> 'e \<Rightarrow> string \<Rightarrow> string \<Rightarrow> bool" where
  "resolves_to cfg m s face_encoding name employee_id =
     (length (known_faces s) > 0
      \<and> cache_lookup cfg m s face_encoding = None
      \<and> best_match cfg m s face_encoding = Inr (Some (name, employee_id)))"

text \<open>
  The states of a run. \<^verbatim>\<open>__init__\<close> builds the first one; the loop of
  \<^verbatim>\<open>recognize_faces\<close> processes a face (under the configuration and the matcher of the
  moment), records a failure as part of that, asks \<^verbatim>\<open>is_employee_locked('unknown')\<close>
  when it draws the frame, and reloads the gallery on request; the registration of an
  employee changes the gallery too.
\<close>

inductive reachable :: "'e state \<Rightarrow> bool" where
  init: "reachable (init_state cfg faces names ids)"
| face: "reachable s \<Longrightarrow> reachable (fst (snd (process_face cfg m current_time s env face_encoding)))"
| failure: "reachable s \<Longrightarrow> reachable (register_failed_attempt cfg s now)"
| draw: "reachable s \<Longrightarrow> reachable (snd (is_employee_locked s ''unknown'' now))"
| gallery: "reachable s \<Longrightarrow>
            reachable (s\<lparr> known_faces := faces, known_names := names, known_ids := ids \<rparr>)"

text \<open>
  Variants of the installation: registrations refused outside the work hours; a cache
  limited to no entry, with two employees or with none; the installation of Ana after
  the timecard of Ana was accepted at noon; an installation with no employee.
\<close>

definition strict_hours_config :: config where
  "strict_hours_config = default_config\<lparr> ALLOW_AFTER_HOURS := Some False \<rparr>"





definition empty_gallery :: "int state" where
  "empty_gallery = init_state default_config [] [] []"

definition basic_empty_gallery :: "int basic_state" where
  "basic_empty_gallery = \<lparr> basic_known_faces = [], basic_known_names = [], basic_known_ids = [],
                           basic_last_recognition = Map.empty \<rparr>"

definition basic_env_at :: "datetime \<Rightarrow> response \<Rightarrow> basic_env" where
  "basic_env_at now answer = \<lparr> basic_now_cooldown = now, basic_now_timestamp = now,
                               basic_now_accepted = now, basic_backend = answer \<rparr>"

text \<open>How often a trace calls \<^verbatim>\<open>face_recognition.face_distance\<close>.\<close>

fun distance_calls :: "event list \<Rightarrow> nat" where
  "distance_calls [] = 0"
| "distance_calls (EvFaceDistance # evs) = Suc (distance_calls evs)"
| "distance_calls (ev # evs) = distance_calls evs"

section \<open>Evaluation of the small installation\<close>

lemma locked_state_eq:
  "locked_state employee_id = (one_employee employee_id)\<lparr>
      failed_attempts := [''unknown'' \<mapsto> map timedelta_seconds [0, 1, 2, 3, 4, 5, 6, 7, 8, 9]],
      locked_until := [''unknown'' \<mapsto> timedelta_seconds 309] \<rparr>"
  by (simp add: locked_state_def one_employee_def init_state_def default_config_def
      register_failed_attempt_def failure_window_def timedelta_seconds_def timedelta_hours_def Let_def)

section \<open>The cooldown ledger\<close>

text \<open>
  Claim C1, amended. \<^verbatim>\<open>can_register_again\<close> first asks \<^verbatim>\<open>is_employee_locked\<close> for the same
  id. For an id that is locked out at the call the answer is false, whatever the
  cooldown ledger holds. For every identity \<open>I\<close> that is not locked out at the call: with
  no cooldown entry for \<open>I\<close> the answer is true; after the acceptance of \<open>I\<close> was marked at
  \<open>t0\<close>, the answer is false for every \<open>t\<close> with \<open>t0 \<le> t < t0 + cooldown\<close> and true for
  every \<open>t \<ge> t0 + cooldown\<close>, the boundary included.
\<close>

theorem can_register_again_cooldown:
  "(fst (is_employee_locked s I now_lock) \<longrightarrow>
      \<not> fst (can_register_again cfg s I now_lock t)
      \<and> \<not> fst (can_register_again cfg (mark_accepted s I t0) I now_lock t))
   \<and> (\<not> fst (is_employee_locked s I now_lock) \<longrightarrow>
        (last_recognition s I = None \<longrightarrow> fst (can_register_again cfg s I now_lock t))
        \<and> (t0 \<le> t \<and> t < t0 + timedelta_seconds (RECOGNITION_COOLDOWN cfg)
             \<longrightarrow> \<not> fst (can_register_again cfg (mark_accepted s I t0) I now_lock t))
        \<and> (t \<ge> t0 + timedelta_seconds (RECOGNITION_COOLDOWN cfg)
             \<longrightarrow> fst (can_register_again cfg (mark_accepted s I t0) I now_lock t)))"
proof (intro conjI impI)
  assume locked: "fst (is_employee_locked s I now_lock)"
  obtain s' where e: "is_employee_locked s I now_lock = (True, s')"
    using locked by (cases "is_employee_locked s I now_lock") auto
  show "\<not> fst (can_register_again cfg s I now_lock t)"
    by (simp add: can_register_again_def e)
  have "is_employee_locked (mark_accepted s I t0) I now_lock
          = (fst (is_employee_locked s I now_lock),
             mark_accepted (snd (is_employee_locked s I now_lock)) I t0)"
    by (simp add: is_employee_locked_def mark_accepted_def split: option.splits)
  with locked show "\<not> fst (can_register_again cfg (mark_accepted s I t0) I now_lock t)"
    by (simp add: can_register_again_def)
next
  assume free: "\<not> fst (is_employee_locked s I now_lock)"
  {
    assume "last_recognition s I = None"
    with free show "fst (can_register_again cfg s I now_lock t)"
      by (auto simp: can_register_again_def is_employee_locked_def
          split: option.splits if_splits)
  }
  {
    assume "t0 \<le> t \<and> t < t0 + timedelta_seconds (RECOGNITION_COOLDOWN cfg)"
    with free show "\<not> fst (can_register_again cfg (mark_accepted s I t0) I now_lock t)"
      by (auto simp: can_register_again_def is_employee_locked_def mark_accepted_def
          split: option.splits if_splits)
  }
  {
    assume "t \<ge> t0 + timedelta_seconds (RECOGNITION_COOLDOWN cfg)"
    with free show "fst (can_register_again cfg (mark_accepted s I t0) I now_lock t)"
      by (auto simp: can_register_again_def is_employee_locked_def mark_accepted_def
          split: option.splits if_splits)
  }
qed

text \<open>
  Employee E1 under the default cooldown of 10 seconds: allowed with no entry, refused 5
  seconds after an acceptance at 0, allowed again at exactly 10 seconds. The id
  \<^verbatim>\<open>unknown\<close>, 20 seconds into the lockout: refused, with and without a cooldown entry.
\<close>

theorem can_register_again_cooldown_witness:
  "\<not> fst (is_employee_locked (one_employee ''E1'') ''E1'' (timedelta_seconds 5))
   \<and> last_recognition (one_employee ''E1'') ''E1'' = None
   \<and> fst (can_register_again default_config (one_employee ''E1'') ''E1''
            (timedelta_seconds 5) (timedelta_seconds 5))
   \<and> (0::int) \<le> timedelta_seconds 5
   \<and> timedelta_seconds 5 < 0 + timedelta_seconds (RECOGNITION_COOLDOWN default_config)
   \<and> \<not> fst (can_register_again default_config (mark_accepted (one_employee ''E1'') ''E1'' 0) ''E1''
            (timedelta_seconds 5) (timedelta_seconds 5))
   \<and> timedelta_seconds 10 \<ge> 0 + timedelta_seconds (RECOGNITION_COOLDOWN default_config)
   \<and> fst (can_register_again default_config (mark_accepted (one_employee ''E1'') ''E1'' 0) ''E1''
            (timedelta_seconds 5) (timedelta_seconds 10))
   \<and> fst (is_employee_locked (locked_state ''unknown'') ''unknown'' (timedelta_seconds 20))
   \<and> \<not> fst (can_register_again default_config (locked_state ''unknown'') ''unknown''
            (timedelta_seconds 20) (timedelta_seconds 400))
   \<and> \<not> fst (can_register_again default_config
            (mark_accepted (locked_state ''unknown'') ''unknown'' 0) ''unknown''
            (timedelta_seconds 20) (timedelta_seconds 400))"
proof -
  have h: "\<not> fst (is_employee_locked (one_employee ''E1'') ''E1'' (timedelta_seconds 5))"
    by (simp add: is_employee_locked_def one_employee_def init_state_def)
  have n: "last_recognition (one_employee ''E1'') ''E1'' = None"
    by (simp add: one_employee_def init_state_def)
  have c: "RECOGNITION_COOLDOWN default_config = 10"
    by (simp add: default_config_def)
  have l: "fst (is_employee_locked (locked_state ''unknown'') ''unknown'' (timedelta_seconds 20))"
    by (simp add: is_employee_locked_def locked_state_eq timedelta_seconds_def)
  show ?thesis
    using h n l
      can_register_again_cooldown [where s = "one_employee ''E1''" and I = "''E1''"
        and now_lock = "timedelta_seconds 5" and cfg = default_config
        and t = "timedelta_seconds 5" and ?t0.0 = 0]
      can_register_again_cooldown [where s = "one_employee ''E1''" and I = "''E1''"
        and now_lock = "timedelta_seconds 5" and cfg = default_config
        and t = "timedelta_seconds 10" and ?t0.0 = 0]
      can_register_again_cooldown [where s = "locked_state ''unknown''" and I = "''unknown''"
        and now_lock = "timedelta_seconds 20" and cfg = default_config
        and t = "timedelta_seconds 400" and ?t0.0 = 0]
    by (simp add: c timedelta_seconds_def)
qed

text \<open>
  The claim as stated fails for the identity whose id is the key of the shared lockout:
  an employee registered with the id \<^verbatim>\<open>unknown\<close> has no cooldown entry and is refused
  while the lockout lasts.
\<close>

theorem can_register_again_locked_counterexample:
  "last_recognition (locked_state ''unknown'') ''unknown'' = None
   \<and> \<not> fst (can_register_again default_config (locked_state ''unknown'') ''unknown''
             (timedelta_seconds 20) (timedelta_seconds 20))"
  by (simp add: locked_state_eq one_employee_def init_state_def can_register_again_def
      is_employee_locked_def timedelta_seconds_def)

section \<open>The failure ledger and the lockout\<close>

text \<open>
  Claim C2, amended. \<^verbatim>\<open>register_failed_attempt\<close> does not look at an existing lockout.
  With \<^verbatim>\<open>MAX_FAILED_ATTEMPTS\<close> and \<^verbatim>\<open>LOCKOUT_TIME\<close> configured, a failure at \<open>now\<close> sets the
  deadline to \<open>now + LOCKOUT_TIME\<close> whenever the failures of the last hour, this one
  included, number at least \<^verbatim>\<open>MAX_FAILED_ATTEMPTS\<close>, also while the scope is locked;
  otherwise it leaves the deadline as it was. A failure during the lockout thus
  extends it.
\<close>

theorem register_failed_attempt_deadline:
  assumes "MAX_FAILED_ATTEMPTS cfg = Some m" and "LOCKOUT_TIME cfg = Some l"
  shows "locked_until (register_failed_attempt cfg s now) ''unknown'' =
     (if m \<le> int (length (filter (\<lambda>a. a > now - timedelta_hours 1) (failure_window s ''unknown''))) + 1
      then Some (now + timedelta_seconds l)
      else locked_until s ''unknown'')"
  using assms
  by (simp add: register_failed_attempt_def Let_def timedelta_hours_def)

theorem register_failed_attempt_deadline_witness:
  "MAX_FAILED_ATTEMPTS default_config = Some 10 \<and> LOCKOUT_TIME default_config = Some 300
   \<and> locked_until (locked_state ''E1'') ''unknown'' = Some (timedelta_seconds 309)
   \<and> locked_until (register_failed_attempt default_config (locked_state ''E1'') (timedelta_seconds 200))
        ''unknown'' = Some (timedelta_seconds 500)"
proof -
  have m: "MAX_FAILED_ATTEMPTS default_config = Some 10"
    and l: "LOCKOUT_TIME default_config = Some 300"
    by (simp_all add: default_config_def)
  show ?thesis
    using m l register_failed_attempt_deadline [OF m l, of "locked_state ''E1''" "timedelta_seconds 200"]
    by (simp add: locked_state_eq failure_window_def timedelta_seconds_def timedelta_hours_def)
qed

text \<open>
  Ten failures in the seconds 0 to 9 trip the lockout until second 309; an eleventh
  failure at second 10, while locked, moves the deadline to second 310.
\<close>

theorem lockout_extended_counterexample:
  "locked_until (locked_state ''E1'') ''unknown'' = Some (timedelta_seconds 309)
   \<and> timedelta_seconds 10 \<le> timedelta_seconds 309
   \<and> locked_until (register_failed_attempt default_config (locked_state ''E1'') (timedelta_seconds 10))
        ''unknown'' = Some (timedelta_seconds 310)"
  by (simp add: locked_state_eq one_employee_def init_state_def default_config_def
      register_failed_attempt_def failure_window_def timedelta_seconds_def timedelta_hours_def Let_def)

text \<open>
  Claim C4, amended. Only \<^verbatim>\<open>is_employee_locked\<close> clears an expired lockout: its first call
  with \<open>now\<close> past the deadline answers false and deletes the lockout entry and the
  failure history of the scope, so that every later call answers false and the next
  failure of the shared scope starts a window of one entry.
  \<^verbatim>\<open>register_failed_attempt\<close> deletes no lockout entry, expired or not: it appends the
  failure and drops the entries that are one hour old or older.
\<close>

theorem is_employee_locked_lazy_expiry:
  assumes "locked_until s scope = Some until" and "now > until"
  shows "\<not> fst (is_employee_locked s scope now)
       \<and> locked_until (snd (is_employee_locked s scope now)) scope = None
       \<and> failed_attempts (snd (is_employee_locked s scope now)) scope = None
       \<and> \<not> fst (is_employee_locked (snd (is_employee_locked s scope now)) scope later)
       \<and> (scope = ''unknown'' \<and> MAX_FAILED_ATTEMPTS cfg = Some m \<longrightarrow>
            failure_window (register_failed_attempt cfg (snd (is_employee_locked s scope now)) later)
              ''unknown'' = [later])
       \<and> (scope = ''unknown'' \<longrightarrow>
            locked_until (register_failed_attempt cfg s later) ''unknown'' \<noteq> None)
       \<and> (MAX_FAILED_ATTEMPTS cfg = Some m \<longrightarrow>
            failure_window (register_failed_attempt cfg s later) ''unknown''
              = filter (\<lambda>attempt. attempt > later - timedelta_hours 1)
                  (failure_window s ''unknown'') @ [later])"
proof -
  have e: "is_employee_locked s scope now =
             (False, s\<lparr> locked_until := (locked_until s)(scope := None),
                          failed_attempts := (failed_attempts s)(scope := None) \<rparr>)"
    using assms by (simp add: is_employee_locked_def)
  have a: "\<not> fst (is_employee_locked s scope now)
       \<and> locked_until (snd (is_employee_locked s scope now)) scope = None
       \<and> failed_attempts (snd (is_employee_locked s scope now)) scope = None
       \<and> \<not> fst (is_employee_locked (snd (is_employee_locked s scope now)) scope later)
       \<and> (scope = ''unknown'' \<and> MAX_FAILED_ATTEMPTS cfg = Some m \<longrightarrow>
            failure_window (register_failed_attempt cfg (snd (is_employee_locked s scope now)) later)
              ''unknown'' = [later])"
    unfolding e
    by (auto simp: is_employee_locked_def register_failed_attempt_def failure_window_def Let_def
        timedelta_hours_def split: option.splits)
  have k: "scope = ''unknown'' \<longrightarrow>
            locked_until (register_failed_attempt cfg s later) ''unknown'' \<noteq> None"
    using assms(1)
    by (auto simp: register_failed_attempt_def Let_def split: option.splits if_splits)
  have w: "MAX_FAILED_ATTEMPTS cfg = Some m \<longrightarrow>
            failure_window (register_failed_attempt cfg s later) ''unknown''
              = filter (\<lambda>attempt. attempt > later - timedelta_hours 1)
                  (failure_window s ''unknown'') @ [later]"
    by (auto simp: register_failed_attempt_def failure_window_def Let_def timedelta_hours_def
        split: option.splits)
  show ?thesis using a k w by blast
qed

theorem is_employee_locked_lazy_expiry_witness:
  "locked_until (locked_state ''E1'') ''unknown'' = Some (timedelta_seconds 309)
   \<and> timedelta_seconds 310 > timedelta_seconds 309
   \<and> MAX_FAILED_ATTEMPTS default_config = Some 10
   \<and> \<not> fst (is_employee_locked (locked_state ''E1'') ''unknown'' (timedelta_seconds 310))
   \<and> failure_window (register_failed_attempt default_config
         (snd (is_employee_locked (locked_state ''E1'') ''unknown'' (timedelta_seconds 310)))
         (timedelta_seconds 400)) ''unknown'' = [timedelta_seconds 400]
   \<and> locked_until (register_failed_attempt default_config (locked_state ''E1'')
         (timedelta_seconds 400)) ''unknown'' \<noteq> None"
proof -
  have u: "locked_until (locked_state ''E1'') ''unknown'' = Some (timedelta_seconds 309)"
    by (simp add: locked_state_eq)
  have t: "timedelta_seconds 310 > timedelta_seconds 309"
    by (simp add: timedelta_seconds_def)
  have m: "MAX_FAILED_ATTEMPTS default_config = Some 10"
    by (simp add: default_config_def)
  show ?thesis
    using u t m
      is_employee_locked_lazy_expiry [OF u t, where later = "timedelta_seconds 400"
        and cfg = default_config and m = 10]
    by simp
qed

text \<open>
  \<^verbatim>\<open>register_failed_attempt\<close> called past the deadline (second 400, deadline 309) deletes
  nothing: the window then holds eleven entries and the scope is locked again, until
  second 700.
\<close>

theorem register_failed_attempt_keeps_lock_counterexample:
  "locked_until (locked_state ''E1'') ''unknown'' = Some (timedelta_seconds 309)
   \<and> timedelta_seconds 400 > timedelta_seconds 309
   \<and> locked_until (register_failed_attempt default_config (locked_state ''E1'') (timedelta_seconds 400))
        ''unknown'' = Some (timedelta_seconds 700)
   \<and> failed_attempts_stat
        (register_failed_attempt default_config (locked_state ''E1'') (timedelta_seconds 400)) = 11
   \<and> fst (is_employee_locked
        (register_failed_attempt default_config (locked_state ''E1'') (timedelta_seconds 400))
        ''unknown'' (timedelta_seconds 401))"
  by (simp add: locked_state_eq one_employee_def init_state_def default_config_def
      register_failed_attempt_def failure_window_def failed_attempts_stat_def is_employee_locked_def
      timedelta_seconds_def timedelta_hours_def Let_def)

text \<open>
  Claim C8, amended. The window is pruned only inside \<^verbatim>\<open>register_failed_attempt\<close>: right
  after a failure recorded at \<open>now\<close>, which is when the threshold is compared, every
  timestamp of the window is less than one hour older than \<open>now\<close>. A read at another
  moment sees the window as the last failure left it.
\<close>

theorem register_failed_attempt_within_last_hour:
  assumes "MAX_FAILED_ATTEMPTS cfg = Some m"
  shows "within_last_hour now (failure_window (register_failed_attempt cfg s now) ''unknown'')"
  using assms
  by (simp add: register_failed_attempt_def within_last_hour_def failure_window_def Let_def
      list_all_iff split: option.splits)

theorem register_failed_attempt_within_last_hour_witness:
  "MAX_FAILED_ATTEMPTS default_config = Some 10
   \<and> within_last_hour (timedelta_hours 2)
       (failure_window (register_failed_attempt default_config
          (register_failed_attempt default_config (one_employee ''E1'') 0) (timedelta_hours 2))
          ''unknown'')
   \<and> failure_window (register_failed_attempt default_config
          (register_failed_attempt default_config (one_employee ''E1'') 0) (timedelta_hours 2))
          ''unknown'' = [timedelta_hours 2]"
proof -
  have m: "MAX_FAILED_ATTEMPTS default_config = Some 10"
    by (simp add: default_config_def)
  show ?thesis
    using m register_failed_attempt_within_last_hour [OF m,
        of "timedelta_hours 2" "register_failed_attempt default_config (one_employee ''E1'') 0"]
    by (simp add: one_employee_def init_state_def default_config_def
      register_failed_attempt_def failure_window_def timedelta_hours_def Let_def)
qed

text \<open>
  A failure at time 0 and the statistics of \<^verbatim>\<open>main\<close> read two hours later: the window
  still holds the entry, which is two hours old.
\<close>

theorem stale_failure_read_counterexample:
  "failed_attempts_stat (register_failed_attempt default_config (one_employee ''E1'') 0) = 1
   \<and> failure_window (register_failed_attempt default_config (one_employee ''E1'') 0) ''unknown'' = [0]
   \<and> \<not> within_last_hour (timedelta_hours 2)
         (failure_window (register_failed_attempt default_config (one_employee ''E1'') 0) ''unknown'')"
  by (simp add: one_employee_def init_state_def default_config_def within_last_hour_def
      register_failed_attempt_def failure_window_def failed_attempts_stat_def
      timedelta_hours_def Let_def)

section \<open>The submission with retries\<close>

lemma upt_three: "[0..<3] = [0, 1, 2::nat]"
  by code_simp

lemma store_calls_append: "store_calls (xs @ ys) = store_calls xs + store_calls ys"
  by (induction xs rule: store_calls.induct) simp_all

lemma injected_delay_append: "injected_delay (xs @ ys) = injected_delay xs + injected_delay ys"
  by (induction xs rule: injected_delay.induct) simp_all

lemma send_attempts_calls:
  "store_calls (snd (send_attempts be i n t mr attempts)) \<le> length attempts"
proof (induction attempts)
  case Nil
  show ?case by simp
next
  case (Cons a rest)
  obtain r evs where e: "send_attempts be i n t mr rest = (r, evs)"
    by (cases "send_attempts be i n t mr rest")
  with Cons have "store_calls evs \<le> length rest" by simp
  then show ?case
    by (simp add: e store_calls_append split: response.splits json_body.splits)
qed

lemma send_attempts_first_post:
  "\<exists>rest. snd (send_attempts be i n t mr (a # attempts)) = EvPost i n t # rest"
  by (simp split: response.splits json_body.splits prod.splits)

lemma send_at_most_three_calls:
  "store_calls (snd (send_timecard_to_backend be i n t)) \<le> 3"
  using send_attempts_calls [of be i n t 3 "[0, 1, 2]"]
  by (simp add: send_timecard_to_backend_def upt_three)

lemma send_starts_with_post:
  "\<exists>rest. snd (send_timecard_to_backend be i n t) = EvPost i n t # rest"
  using send_attempts_first_post [of be i n t 3 0 "[1, 2]"]
  by (simp add: send_timecard_to_backend_def upt_three)

text \<open>
  Claim C6. The claim asks for a pause of one second between every pair of consecutive
  attempts. \<^verbatim>\<open>send_timecard_to_backend\<close> pauses only in its \<^verbatim>\<open>except\<close> branch: when the
  store answers 500 twice and then 200, it makes 3 calls with no pause at all, while the
  same run with two transport errors makes 3 calls with 2 seconds of pause. And a 200
  answer whose JSON is a list makes the function raise \<^verbatim>\<open>AttributeError\<close> instead of
  returning.
\<close>

theorem send_timecard_pause_divergence:
  "send_timecard_to_backend http_500_twice ''E1'' ''Ana'' 0
     = (Inr (True, Some store_ok),
        [EvPost ''E1'' ''Ana'' 0, EvPost ''E1'' ''Ana'' 0, EvPost ''E1'' ''Ana'' 0])
   \<and> store_calls (snd (send_timecard_to_backend http_500_twice ''E1'' ''Ana'' 0)) = 3
   \<and> injected_delay (snd (send_timecard_to_backend http_500_twice ''E1'' ''Ana'' 0)) = 0
   \<and> send_timecard_to_backend unreachable_twice ''E1'' ''Ana'' 0
     = (Inr (True, Some store_ok),
        [EvPost ''E1'' ''Ana'' 0, EvSleep 1, EvPost ''E1'' ''Ana'' 0, EvSleep 1,
         EvPost ''E1'' ''Ana'' 0])
   \<and> injected_delay (snd (send_timecard_to_backend unreachable_twice ''E1'' ''Ana'' 0)) = 2
   \<and> send_timecard_to_backend answers_a_list ''E1'' ''Ana'' 0
     = (Inl AttributeError, [EvPost ''E1'' ''Ana'' 0])"
  by (simp add: send_timecard_to_backend_def upt_three http_500_twice_def unreachable_twice_def
      answers_a_list_def)

section \<open>What the steps of the pipeline leave unchanged\<close>


lemma can_register_again_frame:
  "last_recognition (snd (can_register_again cfg s k tlk t)) = last_recognition s"
  "encoding_cache (snd (can_register_again cfg s k tlk t)) = encoding_cache s"
  by (simp_all add: can_register_again_def is_employee_locked_def split: option.splits)

lemma register_failed_attempt_frame:
  "last_recognition (register_failed_attempt cfg s t) = last_recognition s"
  "encoding_cache (register_failed_attempt cfg s t) = encoding_cache s"
  by (simp_all add: register_failed_attempt_def Let_def split: option.splits)

lemma finish_parts:
  "fst (finish cfg env name color s evs) = Inr (name, color)"
  "snd (snd (finish cfg env name color s evs)) = evs"
  "last_recognition (fst (snd (finish cfg env name color s evs))) = last_recognition s"
  "encoding_cache (fst (snd (finish cfg env name color s evs))) = encoding_cache s"
  by (simp_all add: finish_def register_failed_attempt_frame)

lemma cache_insert_frame:
  "last_recognition (cache_insert m s e name k) = last_recognition s"
  "locked_until (cache_insert m s e name k) = locked_until s"
  "failed_attempts (cache_insert m s e name k) = failed_attempts s"
  by (simp_all add: cache_insert_def split: option.splits)

lemma can_register_again_cache:
  "fst (can_register_again cfg (cache_insert m s e name k) k' tlk t) = fst (can_register_again cfg s k' tlk t)"
  by (simp add: can_register_again_def is_employee_locked_def cache_insert_def
      split: option.splits)

lemma cooldown_suffix_eq:
  "last_recognition s' = last_recognition s \<Longrightarrow> cooldown_suffix cfg s' k ct = cooldown_suffix cfg s k ct"
  by (simp add: cooldown_suffix_def)

lemma process_face_resolved:
  assumes "resolves_to cfg m s e name k"
  shows "process_face cfg m ct s env e =
           register_match cfg ct (cache_insert m s e name k) env name k
             [EvCompareFaces, EvFaceDistance]"
  using assms by (simp add: resolves_to_def process_face_def match_gallery_def)

lemma register_match_cases:
  "register_match cfg ct s env name k evs =
     (if fst (can_register_again cfg s k (now_locked env) (now_cooldown env))
      then (if \<not> is_work_hours cfg (now_work env) \<and> \<not> allow_after_hours cfg
            then finish cfg env (name @ out_of_hours_suffix) (0, 255, 255)
                   (snd (can_register_again cfg s k (now_locked env) (now_cooldown env))) evs
            else (case fst (send_timecard_to_backend (backend env) k name ct) of
                    Inl err \<Rightarrow>
                      (Inl err,
                       snd (can_register_again cfg s k (now_locked env) (now_cooldown env)),
                       evs @ snd (send_timecard_to_backend (backend env) k name ct))
                  | Inr (success, result) \<Rightarrow>
                      if success
                      then (case notify_first_entry cfg result k name ct of
                              Inl err \<Rightarrow>
                                (Inl err,
                                 mark_accepted
                                   (snd (can_register_again cfg s k (now_locked env) (now_cooldown env)))
                                   k ct,
                                 evs @ snd (send_timecard_to_backend (backend env) k name ct))
                            | Inr notified \<Rightarrow>
                                finish cfg env name (COLOR_RECOGNIZED cfg)
                                  (mark_accepted
                                     (snd (can_register_again cfg s k (now_locked env) (now_cooldown env)))
                                     k ct)
                                  (evs @ snd (send_timecard_to_backend (backend env) k name ct)
                                     @ notified))
                      else finish cfg env name (COLOR_RECOGNIZED cfg)
                             (snd (can_register_again cfg s k (now_locked env) (now_cooldown env)))
                             (evs @ snd (send_timecard_to_backend (backend env) k name ct))))
      else finish cfg env
             (name @ cooldown_suffix cfg (snd (can_register_again cfg s k (now_locked env) (now_cooldown env))) k ct)
             (color_cooldown cfg)
             (snd (can_register_again cfg s k (now_locked env) (now_cooldown env))) evs)"
  by (simp add: register_match_def split: prod.splits bool.splits sum.splits)

text \<open>
  Claim C5, amended. For every observation resolved to a known identity by the
  comparison with the gallery, outside the work hours and with \<^verbatim>\<open>ALLOW_AFTER_HOURS\<close>
  false, nothing is submitted to the store and no cooldown entry is written. The work
  hours are checked after \<^verbatim>\<open>can_register_again\<close>, inside its true branch: the result is
  the out-of-hours label when \<^verbatim>\<open>can_register_again\<close> allows the identity, and the
  cooldown label when it does not.
\<close>

theorem out_of_hours_checked_after_cooldown:
  assumes "resolves_to cfg m s e name k"
    and "\<not> is_work_hours cfg (now_work env)"
    and "ALLOW_AFTER_HOURS cfg = Some False"
  shows "fst (process_face cfg m ct s env e) =
           Inr (if fst (can_register_again cfg s k (now_locked env) (now_cooldown env))
                then (name @ out_of_hours_suffix, (0, 255, 255))
                else (name @ cooldown_suffix cfg s k ct, color_cooldown cfg))
       \<and> snd (snd (process_face cfg m ct s env e)) = [EvCompareFaces, EvFaceDistance]
       \<and> last_recognition (fst (snd (process_face cfg m ct s env e))) = last_recognition s"
proof -
  have a: "\<not> allow_after_hours cfg"
    using assms(3) by (simp add: allow_after_hours_def)
  have l: "last_recognition (snd (can_register_again cfg (cache_insert m s e name k) k
              (now_locked env) (now_cooldown env))) = last_recognition s"
    by (simp add: can_register_again_frame cache_insert_frame)
  show ?thesis
    unfolding process_face_resolved [OF assms(1)] register_match_cases
    using assms(2) a
    by (simp add: finish_parts can_register_again_cache l cooldown_suffix_eq [OF l])
qed


lemma best_match_ana:
  assumes "known_faces s = [5]" and "known_names s = [''Ana'']" and "known_ids s = [k]"
    and "FACE_RECOGNITION_TOLERANCE cfg = 3 / 5"
  shows "best_match cfg int_matcher s 5 = Inr (Some (''Ana'', k))"
    and "best_match cfg int_matcher s 7 = Inr (Some (''Ana'', k))"
  using assms by (simp_all add: best_match_def int_matcher_def)

lemma resolves_one_employee:
  "resolves_to default_config int_matcher (one_employee k) 5 ''Ana'' k"
  "resolves_to strict_hours_config int_matcher (one_employee k) 5 ''Ana'' k"
  "resolves_to strict_hours_config int_matcher (mark_accepted (one_employee k) k t) 5 ''Ana'' k"
  "resolves_to default_config int_matcher (locked_state k) 5 ''Ana'' k"
  by (simp_all add: resolves_to_def cache_lookup_def best_match_ana locked_state_eq
      mark_accepted_def one_employee_def init_state_def default_config_def strict_hours_config_def)

lemma str_int_examples: "str_int 5 = ''5''" "str_int 10 = ''10''"
  by (simp_all add: str_int_def str_nat.simps)

lemma evening_is_out_of_hours:
  "\<not> is_work_hours strict_hours_config (time_hm 20 0)"
  "\<not> is_work_hours strict_hours_config (time_hm 20 0 + timedelta_seconds 5)"
  "ALLOW_AFTER_HOURS strict_hours_config = Some False"
  by (simp_all add: is_work_hours_def strict_hours_config_def default_config_def time_hm_def
      time_of_day_def timedelta_seconds_def)

text \<open>
  At 20:00, outside the work hours of 07:00 to 19:00 and with registrations after hours
  refused: Ana, not in cooldown, is shown with the out-of-hours suffix; five seconds
  after an acceptance Ana is shown with the cooldown suffix. Nothing is sent either way.
\<close>

theorem out_of_hours_checked_after_cooldown_witness:
  "resolves_to strict_hours_config int_matcher (one_employee ''E1'') 5 ''Ana'' ''E1''
   \<and> \<not> is_work_hours strict_hours_config (now_work (env_at (time_hm 20 0) always_ok))
   \<and> ALLOW_AFTER_HOURS strict_hours_config = Some False
   \<and> fst (process_face strict_hours_config int_matcher (time_hm 20 0) (one_employee ''E1'')
            (env_at (time_hm 20 0) always_ok) 5)
       = Inr (''Ana'' @ out_of_hours_suffix, (0, 255, 255))
   \<and> snd (snd (process_face strict_hours_config int_matcher (time_hm 20 0) (one_employee ''E1'')
            (env_at (time_hm 20 0) always_ok) 5)) = [EvCompareFaces, EvFaceDistance]
   \<and> last_recognition (fst (snd (process_face strict_hours_config int_matcher (time_hm 20 0)
            (one_employee ''E1'') (env_at (time_hm 20 0) always_ok) 5))) ''E1'' = None"
proof -
  have r: "resolves_to strict_hours_config int_matcher (one_employee ''E1'') 5 ''Ana'' ''E1''"
    by (rule resolves_one_employee)
  have w: "\<not> is_work_hours strict_hours_config (now_work (env_at (time_hm 20 0) always_ok))"
    by (simp add: env_at_def evening_is_out_of_hours)
  have a: "ALLOW_AFTER_HOURS strict_hours_config = Some False"
    by (rule evening_is_out_of_hours)
  have c: "fst (can_register_again strict_hours_config (one_employee ''E1'') ''E1''
             (now_locked (env_at (time_hm 20 0) always_ok))
             (now_cooldown (env_at (time_hm 20 0) always_ok)))"
    by (simp add: can_register_again_def is_employee_locked_def one_employee_def init_state_def)
  have l: "last_recognition (one_employee ''E1'') ''E1'' = None"
    by (simp add: one_employee_def init_state_def)
  show ?thesis
    using r w a out_of_hours_checked_after_cooldown [OF r w a, of "time_hm 20 0"]
    by (simp add: c l)
qed

text \<open>
  The claim as stated fails: outside the work hours and inside the cooldown, the result
  is the cooldown label, not the out-of-hours label.
\<close>

theorem cooldown_wins_over_out_of_hours_counterexample:
  "\<not> is_work_hours strict_hours_config (time_hm 20 0 + timedelta_seconds 5)
   \<and> ALLOW_AFTER_HOURS strict_hours_config = Some False
   \<and> fst (process_face strict_hours_config int_matcher (time_hm 20 0 + timedelta_seconds 5)
            (mark_accepted (one_employee ''E1'') ''E1'' (time_hm 20 0))
            (env_at (time_hm 20 0 + timedelta_seconds 5) always_ok) 5)
       = Inr (''Ana (Aguarde 5s)'', (0, 255, 255))
   \<and> fst (process_face strict_hours_config int_matcher (time_hm 20 0 + timedelta_seconds 5)
            (mark_accepted (one_employee ''E1'') ''E1'' (time_hm 20 0))
            (env_at (time_hm 20 0 + timedelta_seconds 5) always_ok) 5)
       \<noteq> Inr (''Ana'' @ out_of_hours_suffix, (0, 255, 255))"
proof -
  have c: "\<not> fst (can_register_again strict_hours_config
             (cache_insert int_matcher (mark_accepted (one_employee ''E1'') ''E1'' (time_hm 20 0)) 5 ''Ana'' ''E1'')
             ''E1'' (time_hm 20 0 + timedelta_seconds 5) (time_hm 20 0 + timedelta_seconds 5))"
    unfolding can_register_again_cache
    by (simp add: can_register_again_def is_employee_locked_def
        mark_accepted_def one_employee_def init_state_def strict_hours_config_def
        default_config_def timedelta_seconds_def)
  have s: "cooldown_suffix strict_hours_config
             (mark_accepted (one_employee ''E1'') ''E1'' (time_hm 20 0)) ''E1''
             (time_hm 20 0 + timedelta_seconds 5) = '' (Aguarde 5s)''"
    by (simp add: cooldown_suffix_def mark_accepted_def strict_hours_config_def default_config_def
        timedelta_seconds_def int_of_seconds_def str_int_examples)
  have l: "last_recognition (snd (can_register_again strict_hours_config
             (cache_insert int_matcher (mark_accepted (one_employee ''E1'') ''E1'' (time_hm 20 0)) 5 ''Ana'' ''E1'')
             ''E1'' (time_hm 20 0 + timedelta_seconds 5) (time_hm 20 0 + timedelta_seconds 5)))
           = last_recognition (mark_accepted (one_employee ''E1'') ''E1'' (time_hm 20 0))"
    by (simp add: can_register_again_frame cache_insert_frame)
  have cc: "color_cooldown strict_hours_config = (0, 255, 255)"
    by (simp add: color_cooldown_def strict_hours_config_def default_config_def)
  have p: "fst (process_face strict_hours_config int_matcher (time_hm 20 0 + timedelta_seconds 5)
            (mark_accepted (one_employee ''E1'') ''E1'' (time_hm 20 0))
            (env_at (time_hm 20 0 + timedelta_seconds 5) always_ok) 5)
       = Inr (''Ana (Aguarde 5s)'', (0, 255, 255))"
    unfolding process_face_resolved [OF resolves_one_employee(3)] register_match_cases
    using c
    by (simp add: env_at_def finish_parts cooldown_suffix_eq [OF l] s cc)
  show ?thesis
    unfolding p by (simp add: evening_is_out_of_hours out_of_hours_suffix_def)
qed


section \<open>The shared lockout and the submission\<close>

lemma register_failed_attempt_locked_dom:
  "dom (locked_until s) \<subseteq> {''unknown''}
   \<Longrightarrow> dom (locked_until (register_failed_attempt cfg s t)) \<subseteq> {''unknown''}"
  by (auto simp: register_failed_attempt_def Let_def split: option.splits if_splits)

lemma is_employee_locked_dom:
  "dom (locked_until s) \<subseteq> {''unknown''}
   \<Longrightarrow> dom (locked_until (snd (is_employee_locked s k t))) \<subseteq> {''unknown''}"
  by (auto simp: is_employee_locked_def split: option.splits if_splits)

lemma init_state_locked_dom: "dom (locked_until (init_state cfg faces names ids)) \<subseteq> {''unknown''}"
  by (simp add: init_state_def)

lemma not_locked_allows:
  assumes "locked_until s k = None"
    and "case last_recognition s k of
           None \<Rightarrow> True
         | Some t \<Rightarrow> now - t \<ge> timedelta_seconds (RECOGNITION_COOLDOWN cfg)"
  shows "fst (can_register_again cfg s k tlk now)"
    and "snd (can_register_again cfg s k tlk now) = s"
  using assms
  by (simp_all add: can_register_again_def is_employee_locked_def split: option.splits)

lemma locked_refuses:
  assumes "locked_until s k = Some until" and "tlk \<le> until"
  shows "can_register_again cfg s k tlk now = (False, s)"
  using assms by (simp add: can_register_again_def is_employee_locked_def)

text \<open>
  Claim C9, amended. The lockout is stored under the key \<^verbatim>\<open>unknown\<close>, the only key that
  \<^verbatim>\<open>locked_until\<close> ever holds, and \<^verbatim>\<open>can_register_again\<close> asks for the lockout of the
  employee's own id. For every observation resolved by the comparison with the gallery
  to an identity whose id is not \<^verbatim>\<open>unknown\<close>, whether or not the shared scope is locked:
  when the cooldown and the work hours allow it, the timecard is posted to the store;
  unless the reading of the store's answer raises, the name is shown as recognized; and
  an accepted submission is entered in the cooldown ledger. An identity whose own id is
  locked, which can only be the id \<^verbatim>\<open>unknown\<close>, is shown with the waiting suffix for as
  long as the lockout lasts: nothing is posted and the cooldown ledger is unchanged.
\<close>

theorem shared_lockout_does_not_block_submission:
  assumes "resolves_to cfg m s e name k"
  shows "(k \<noteq> ''unknown'' \<and> dom (locked_until s) \<subseteq> {''unknown''}
          \<and> (is_work_hours cfg (now_work env) \<or> allow_after_hours cfg)
          \<and> (case last_recognition s k of
                None \<Rightarrow> True
              | Some t \<Rightarrow> now_cooldown env - t \<ge> timedelta_seconds (RECOGNITION_COOLDOWN cfg))
          \<longrightarrow>
            (\<exists>rest. snd (snd (process_face cfg m ct s env e))
                      = [EvCompareFaces, EvFaceDistance, EvPost k name ct] @ rest)
            \<and> fst (process_face cfg m ct s env e)
                = (case fst (send_timecard_to_backend (backend env) k name ct) of
                     Inl err \<Rightarrow> Inl err
                   | Inr (success, result) \<Rightarrow>
                       if success
                       then (case notify_first_entry cfg result k name ct of
                               Inl err \<Rightarrow> Inl err
                             | Inr notified \<Rightarrow> Inr (name, COLOR_RECOGNIZED cfg))
                       else Inr (name, COLOR_RECOGNIZED cfg))
            \<and> ((\<exists>result. fst (send_timecard_to_backend (backend env) k name ct)
                            = Inr (True, result))
                 \<longrightarrow> last_recognition (fst (snd (process_face cfg m ct s env e))) k = Some ct))
       \<and> (locked_until s k = Some until \<and> now_locked env \<le> until \<longrightarrow>
            fst (process_face cfg m ct s env e)
              = Inr (name @ cooldown_suffix cfg s k ct, color_cooldown cfg)
            \<and> snd (snd (process_face cfg m ct s env e)) = [EvCompareFaces, EvFaceDistance]
            \<and> last_recognition (fst (snd (process_face cfg m ct s env e))) = last_recognition s)"
proof (intro conjI impI)
  let ?s1 = "cache_insert m s e name k"
  let ?send = "send_timecard_to_backend (backend env) k name ct"
  assume h: "k \<noteq> ''unknown'' \<and> dom (locked_until s) \<subseteq> {''unknown''}
          \<and> (is_work_hours cfg (now_work env) \<or> allow_after_hours cfg)
          \<and> (case last_recognition s k of
                None \<Rightarrow> True
              | Some t \<Rightarrow> now_cooldown env - t \<ge> timedelta_seconds (RECOGNITION_COOLDOWN cfg))"
  have n: "locked_until ?s1 k = None"
    using h by (auto simp: cache_insert_frame)
  have c: "case last_recognition ?s1 k of
             None \<Rightarrow> True
           | Some t \<Rightarrow> now_cooldown env - t \<ge> timedelta_seconds (RECOGNITION_COOLDOWN cfg)"
    using h by (simp add: cache_insert_frame)
  have can: "can_register_again cfg ?s1 k (now_locked env) (now_cooldown env) = (True, ?s1)"
    using not_locked_allows [OF n c, where tlk = "now_locked env"]
    by (simp add: prod_eq_iff)
  have w: "(\<not> is_work_hours cfg (now_work env) \<and> \<not> allow_after_hours cfg) = False"
    using h by blast
  obtain rest where r: "snd ?send = EvPost k name ct # rest"
    using send_starts_with_post by blast
  have p: "process_face cfg m ct s env e =
             (case fst ?send of
                Inl err \<Rightarrow> (Inl err, ?s1, [EvCompareFaces, EvFaceDistance] @ snd ?send)
              | Inr (success, result) \<Rightarrow>
                  if success
                  then (case notify_first_entry cfg result k name ct of
                          Inl err \<Rightarrow>
                            (Inl err, mark_accepted ?s1 k ct,
                             [EvCompareFaces, EvFaceDistance] @ snd ?send)
                        | Inr notified \<Rightarrow>
                            finish cfg env name (COLOR_RECOGNIZED cfg) (mark_accepted ?s1 k ct)
                              ([EvCompareFaces, EvFaceDistance] @ snd ?send @ notified))
                  else finish cfg env name (COLOR_RECOGNIZED cfg) ?s1
                         ([EvCompareFaces, EvFaceDistance] @ snd ?send))"
    unfolding process_face_resolved [OF assms] register_match_cases
    by (simp add: can w split: sum.splits prod.splits)
  show "\<exists>rest. snd (snd (process_face cfg m ct s env e))
                 = [EvCompareFaces, EvFaceDistance, EvPost k name ct] @ rest"
    unfolding p using r
    by (simp add: finish_parts split: sum.splits prod.splits)
  show "fst (process_face cfg m ct s env e)
          = (case fst ?send of
               Inl err \<Rightarrow> Inl err
             | Inr (success, result) \<Rightarrow>
                 if success
                 then (case notify_first_entry cfg result k name ct of
                         Inl err \<Rightarrow> Inl err
                       | Inr notified \<Rightarrow> Inr (name, COLOR_RECOGNIZED cfg))
                 else Inr (name, COLOR_RECOGNIZED cfg))"
    unfolding p
    by (simp add: finish_parts split: sum.splits prod.splits)
  assume "\<exists>result. fst ?send = Inr (True, result)"
  then obtain result where a: "fst ?send = Inr (True, result)" by blast
  show "last_recognition (fst (snd (process_face cfg m ct s env e))) k = Some ct"
    unfolding p a
    by (simp add: finish_parts mark_accepted_def split: sum.splits)
next
  let ?s1 = "cache_insert m s e name k"
  assume l: "locked_until s k = Some until \<and> now_locked env \<le> until"
  then have "locked_until ?s1 k = Some until" and t: "now_locked env \<le> until"
    by (simp_all add: cache_insert_frame)
  then have can: "can_register_again cfg ?s1 k (now_locked env) (now_cooldown env) = (False, ?s1)"
    by (rule locked_refuses)
  have q: "last_recognition ?s1 = last_recognition s"
    by (simp add: cache_insert_frame)
  have p: "process_face cfg m ct s env e =
             finish cfg env (name @ cooldown_suffix cfg s k ct) (color_cooldown cfg) ?s1
               [EvCompareFaces, EvFaceDistance]"
    unfolding process_face_resolved [OF assms] register_match_cases
    by (simp add: can cooldown_suffix_eq [OF q])
  show "fst (process_face cfg m ct s env e)
          = Inr (name @ cooldown_suffix cfg s k ct, color_cooldown cfg)"
    and "snd (snd (process_face cfg m ct s env e)) = [EvCompareFaces, EvFaceDistance]"
    and "last_recognition (fst (snd (process_face cfg m ct s env e))) = last_recognition s"
    unfolding p by (simp_all add: finish_parts q)
qed

lemma locked_state_facts:
  "dom (locked_until (locked_state k)) \<subseteq> {''unknown''}"
  "locked_until (locked_state k) = [''unknown'' \<mapsto> timedelta_seconds 309]"
  "last_recognition (locked_state k) = Map.empty"
  by (simp_all add: locked_state_eq one_employee_def init_state_def)

lemma locked_state_no_insert:
  "cache_insert int_matcher (locked_state k) 5 ''Ana'' k = locked_state k"
  by (simp add: cache_insert_def locked_state_eq one_employee_def init_state_def default_config_def)

lemma always_ok_accepts:
  "send_timecard_to_backend always_ok k name t = (Inr (True, Some store_ok), [EvPost k name t])"
  by (simp add: send_timecard_to_backend_def upt_three always_ok_def)

lemma default_config_facts:
  "notify_first_entry default_config (Some store_ok) k name t = Inr []"
  "COLOR_RECOGNIZED default_config = (0, 255, 0)"
  "COLOR_UNKNOWN default_config = (0, 0, 255)"
  "color_cooldown default_config = (0, 255, 255)"
  "allow_after_hours default_config"
  "RECOGNITION_COOLDOWN default_config = 10"
  by (simp_all add: notify_first_entry_def send_notification_def store_ok_def color_cooldown_def
      allow_after_hours_def default_config_def)

lemma locked_unknown_is_refused:
  "process_face default_config int_matcher (timedelta_seconds 20) (locked_state ''unknown'')
        (env_at (timedelta_seconds 20) always_ok) 5
       = (Inr (''Ana (Aguarde 10s)'', (0, 255, 255)), locked_state ''unknown'',
          [EvCompareFaces, EvFaceDistance])"
proof -
  have c: "can_register_again default_config (locked_state ''unknown'') ''unknown''
             (timedelta_seconds 20) (timedelta_seconds 20) = (False, locked_state ''unknown'')"
    by (simp add: can_register_again_def is_employee_locked_def locked_state_facts
        timedelta_seconds_def)
  have s: "cooldown_suffix default_config (locked_state ''unknown'') ''unknown'' (timedelta_seconds 20)
           = '' (Aguarde 10s)''"
    by (simp add: cooldown_suffix_def locked_state_facts default_config_facts
        timedelta_seconds_def int_of_seconds_def str_int_examples)
  show ?thesis
    unfolding process_face_resolved [OF resolves_one_employee(4)] locked_state_no_insert
      register_match_def
    by (simp add: env_at_def c s default_config_facts finish_def)
qed

lemma locked_other_id_is_submitted:
  "process_face default_config int_matcher (timedelta_seconds 20) (locked_state ''E1'')
             (env_at (timedelta_seconds 20) always_ok) 5
           = (Inr (''Ana'', (0, 255, 0)),
              mark_accepted (locked_state ''E1'') ''E1'' (timedelta_seconds 20),
              [EvCompareFaces, EvFaceDistance, EvPost ''E1'' ''Ana'' (timedelta_seconds 20)])"
proof -
  have can: "can_register_again default_config (locked_state ''E1'') ''E1''
             (timedelta_seconds 20) (timedelta_seconds 20) = (True, locked_state ''E1'')"
    by (simp add: can_register_again_def is_employee_locked_def locked_state_facts)
  show ?thesis
    unfolding process_face_resolved [OF resolves_one_employee(4)] locked_state_no_insert
      register_match_def
    by (simp add: env_at_def can always_ok_accepts default_config_facts finish_def)
qed

text \<open>
  Twenty seconds into a lockout that lasts until second 309: employee E1 is recognized,
  the timecard is posted and accepted; an employee registered with the id \<^verbatim>\<open>unknown\<close>
  is shown with the waiting suffix and nothing is posted.
\<close>

theorem shared_lockout_does_not_block_submission_witness:
  "resolves_to default_config int_matcher (locked_state ''E1'') 5 ''Ana'' ''E1''
   \<and> ''E1'' \<noteq> ''unknown''
   \<and> dom (locked_until (locked_state ''E1'')) \<subseteq> {''unknown''}
   \<and> locked_until (locked_state ''E1'') ''unknown'' = Some (timedelta_seconds 309)
   \<and> allow_after_hours default_config
   \<and> last_recognition (locked_state ''E1'') ''E1'' = None
   \<and> fst (send_timecard_to_backend always_ok ''E1'' ''Ana'' (timedelta_seconds 20))
       = Inr (True, Some store_ok)
   \<and> snd (snd (process_face default_config int_matcher (timedelta_seconds 20) (locked_state ''E1'')
           (env_at (timedelta_seconds 20) always_ok) 5))
       = [EvCompareFaces, EvFaceDistance, EvPost ''E1'' ''Ana'' (timedelta_seconds 20)]
   \<and> fst (process_face default_config int_matcher (timedelta_seconds 20) (locked_state ''E1'')
           (env_at (timedelta_seconds 20) always_ok) 5) = Inr (''Ana'', (0, 255, 0))
   \<and> last_recognition (fst (snd (process_face default_config int_matcher (timedelta_seconds 20)
           (locked_state ''E1'') (env_at (timedelta_seconds 20) always_ok) 5))) ''E1''
       = Some (timedelta_seconds 20)
   \<and> resolves_to default_config int_matcher (locked_state ''unknown'') 5 ''Ana'' ''unknown''
   \<and> locked_until (locked_state ''unknown'') ''unknown'' = Some (timedelta_seconds 309)
   \<and> now_locked (env_at (timedelta_seconds 20) always_ok) \<le> timedelta_seconds 309
   \<and> fst (process_face default_config int_matcher (timedelta_seconds 20) (locked_state ''unknown'')
           (env_at (timedelta_seconds 20) always_ok) 5) = Inr (''Ana (Aguarde 10s)'', (0, 255, 255))
   \<and> snd (snd (process_face default_config int_matcher (timedelta_seconds 20)
           (locked_state ''unknown'') (env_at (timedelta_seconds 20) always_ok) 5))
       = [EvCompareFaces, EvFaceDistance]"
proof -
  have r1: "resolves_to default_config int_matcher (locked_state ''E1'') 5 ''Ana'' ''E1''"
    and r2: "resolves_to default_config int_matcher (locked_state ''unknown'') 5 ''Ana'' ''unknown''"
    by (rule resolves_one_employee)+
  have t: "now_locked (env_at (timedelta_seconds 20) always_ok) \<le> timedelta_seconds 309"
    by (simp add: env_at_def timedelta_seconds_def)
  show ?thesis
    using r1 r2 t
      shared_lockout_does_not_block_submission [OF r1, where ct = "timedelta_seconds 20"
        and env = "env_at (timedelta_seconds 20) always_ok" and until = 0]
      shared_lockout_does_not_block_submission [OF r2, where ct = "timedelta_seconds 20"
        and env = "env_at (timedelta_seconds 20) always_ok" and until = "timedelta_seconds 309"]
    by (simp add: locked_other_id_is_submitted locked_unknown_is_refused mark_accepted_def
        locked_state_facts default_config_facts always_ok_accepts)
qed

text \<open>
  The claim as stated fails for an employee registered with the id \<^verbatim>\<open>unknown\<close>: correctly
  identified during the lockout, allowed by cooldown and work hours, the employee is shown with the
  waiting suffix and nothing is posted.
\<close>

theorem lockout_blocks_id_unknown_counterexample:
  "resolves_to default_config int_matcher (locked_state ''unknown'') 5 ''Ana'' ''unknown''
   \<and> last_recognition (locked_state ''unknown'') ''unknown'' = None
   \<and> allow_after_hours default_config
   \<and> process_face default_config int_matcher (timedelta_seconds 20) (locked_state ''unknown'')
        (env_at (timedelta_seconds 20) always_ok) 5
       = (Inr (''Ana (Aguarde 10s)'', (0, 255, 255)), locked_state ''unknown'',
          [EvCompareFaces, EvFaceDistance])"
  using resolves_one_employee(4) [of "''unknown''"]
  by (simp add: locked_unknown_is_refused locked_state_facts default_config_facts)

section \<open>Invariants of the reachable states\<close>

lemma finish_locked_dom:
  "dom (locked_until s) \<subseteq> {''unknown''}
   \<Longrightarrow> dom (locked_until (fst (snd (finish cfg env name color s evs)))) \<subseteq> {''unknown''}"
  by (simp add: finish_def register_failed_attempt_locked_dom)

lemma can_register_again_locked_dom:
  "dom (locked_until s) \<subseteq> {''unknown''}
   \<Longrightarrow> dom (locked_until (snd (can_register_again cfg s k tlk t))) \<subseteq> {''unknown''}"
  by (auto simp: can_register_again_def is_employee_locked_def split: option.splits if_splits)

lemma register_match_locked_dom:
  assumes "dom (locked_until s) \<subseteq> {''unknown''}"
  shows "dom (locked_until (fst (snd (register_match cfg ct s env name k evs)))) \<subseteq> {''unknown''}"
proof -
  have c: "dom (locked_until (snd (can_register_again cfg s k (now_locked env) (now_cooldown env))))
             \<subseteq> {''unknown''}"
    using assms by (rule can_register_again_locked_dom)
  then have m: "dom (locked_until (mark_accepted
                  (snd (can_register_again cfg s k (now_locked env) (now_cooldown env))) k ct))
             \<subseteq> {''unknown''}"
    by (simp add: mark_accepted_def)
  show ?thesis
    unfolding register_match_cases
    using c m by (simp add: finish_locked_dom split: sum.splits prod.splits)
qed

lemma match_gallery_locked_dom:
  assumes "dom (locked_until s) \<subseteq> {''unknown''}"
  shows "dom (locked_until (fst (snd (match_gallery cfg m ct s env e)))) \<subseteq> {''unknown''}"
proof (cases "best_match cfg m s e")
  case (Inl err)
  then show ?thesis using assms by (simp add: match_gallery_def)
next
  case (Inr found)
  show ?thesis
  proof (cases found)
    case None
    with Inr show ?thesis
      using assms by (simp add: match_gallery_def finish_locked_dom)
  next
    case (Some p)
    obtain name k where p: "p = (name, k)" by (cases p)
    have "dom (locked_until (cache_insert m s e name k)) \<subseteq> {''unknown''}"
      using assms by (simp add: cache_insert_frame)
    then show ?thesis
      using Inr Some p by (simp add: match_gallery_def register_match_locked_dom)
  qed
qed

lemma process_face_locked_dom:
  assumes "dom (locked_until s) \<subseteq> {''unknown''}"
  shows "dom (locked_until (fst (snd (process_face cfg m ct s env e)))) \<subseteq> {''unknown''}"
proof (cases "cache_lookup cfg m s e")
  case None
  then show ?thesis
    using assms by (simp add: process_face_def match_gallery_locked_dom finish_locked_dom)
next
  case (Some p)
  then show ?thesis
    using assms by (cases p) (simp add: process_face_def finish_locked_dom)
qed

text \<open>In every state of a run, \<^verbatim>\<open>locked_until\<close> holds no other key than \<^verbatim>\<open>unknown\<close>.\<close>

lemma reachable_locked_dom: "reachable s \<Longrightarrow> dom (locked_until s) \<subseteq> {''unknown''}"
proof (induction rule: reachable.induct)
  case (init cfg faces names ids)
  show ?case by (rule init_state_locked_dom)
next
  case (face s cfg m current_time env face_encoding)
  then show ?case by (simp add: process_face_locked_dom)
next
  case (failure s cfg now)
  then show ?case by (simp add: register_failed_attempt_locked_dom)
next
  case (draw s now)
  then show ?case by (simp add: is_employee_locked_dom)
next
  case (gallery s faces names ids)
  then show ?case by simp
qed

section \<open>The encoding cache\<close>


























section \<open>The empty gallery\<close>

text \<open>
  Claim C7, amended. With an empty gallery every observation resolves to
  \<^verbatim>\<open>Desconhecido\<close> and \<^verbatim>\<open>np.argmin\<close> never sees an empty array. In \<^verbatim>\<open>process_recognition\<close>
  the guard on the length of the gallery comes first: no matcher function is called,
  and the failure is recorded. In the loop of \<^verbatim>\<open>facial_recognition_timecard.py\<close> both
  matcher functions are called on the empty gallery, and the guard on the length of
  the distances, which are empty for an empty gallery, skips \<^verbatim>\<open>np.argmin\<close>.
\<close>

theorem empty_gallery_resolves_unknown:
  "(known_faces s = [] \<longrightarrow>
      process_face cfg m ct s env e
        = (Inr (''Desconhecido'', COLOR_UNKNOWN cfg),
           register_failed_attempt cfg s (now_failed env), [])
      \<and> distance_calls (snd (snd (process_face cfg m ct s env e))) = 0)
   \<and> (basic_known_faces b = [] \<and> face_distance m [] e = [] \<longrightarrow>
        basic_recognize_face m b benv e
          = (Inr ''Desconhecido'', b, [EvCompareFaces, EvFaceDistance]))"
  by (simp add: process_face_def finish_def basic_recognize_face_def)

theorem empty_gallery_resolves_unknown_witness:
  "known_faces empty_gallery = []
   \<and> process_face default_config int_matcher 0 empty_gallery (env_at 0 always_ok) 5
       = (Inr (''Desconhecido'', (0, 0, 255)),
          register_failed_attempt default_config empty_gallery 0, [])
   \<and> failure_window (register_failed_attempt default_config empty_gallery 0) ''unknown'' = [0]
   \<and> basic_known_faces basic_empty_gallery = []
   \<and> face_distance int_matcher [] 5 = []
   \<and> basic_recognize_face int_matcher basic_empty_gallery
         (basic_env_at 0 (HttpResponse 200 (JsonDict store_ok))) 5
       = (Inr ''Desconhecido'', basic_empty_gallery, [EvCompareFaces, EvFaceDistance])"
proof -
  have k: "known_faces empty_gallery = []"
    by (simp add: empty_gallery_def init_state_def)
  have u: "COLOR_UNKNOWN default_config = (0, 0, 255)" "now_failed (env_at 0 always_ok) = 0"
    by (simp_all add: default_config_def env_at_def)
  have f: "failure_window (register_failed_attempt default_config empty_gallery 0) ''unknown'' = [0]"
    by (simp add: register_failed_attempt_def failure_window_def empty_gallery_def init_state_def
        default_config_def timedelta_hours_def Let_def)
  have d: "basic_known_faces basic_empty_gallery = []" "face_distance int_matcher [] 5 = []"
    by (simp_all add: basic_empty_gallery_def int_matcher_def)
  show ?thesis
    using k f d
      empty_gallery_resolves_unknown [where s = empty_gallery and cfg = default_config
        and m = int_matcher and ct = 0 and env = "env_at 0 always_ok" and e = 5
        and b = basic_empty_gallery and benv = "basic_env_at 0 (HttpResponse 200 (JsonDict store_ok))"]
    by (simp add: u)
qed

text \<open>
  The claim as stated fails in the loop of \<^verbatim>\<open>facial_recognition_timecard.py\<close>: with an
  empty gallery the distance function is called once for the observation.
\<close>

theorem basic_loop_calls_distance_counterexample:
  "basic_known_faces basic_empty_gallery = []
   \<and> fst (basic_recognize_face int_matcher basic_empty_gallery
            (basic_env_at 0 (HttpResponse 200 (JsonDict store_ok))) 5) = Inr ''Desconhecido''
   \<and> distance_calls (snd (snd (basic_recognize_face int_matcher basic_empty_gallery
            (basic_env_at 0 (HttpResponse 200 (JsonDict store_ok))) 5))) = 1"
  by (simp add: basic_recognize_face_def basic_empty_gallery_def int_matcher_def)



end
